theory Spec2Isabelle
  imports Complex_Main
begin

section \<open>Numbers and tensors\<close>

text \<open>
  The emission models of \<^verbatim>\<open>torchmm/base.py\<close> store their parameters in tensors of
  floating-point numbers. A tensor entry is modelled as an ideal real number or one of
  the three special values of IEEE arithmetic; rounding and signed zeros are left out, so
  every "approximately equal" of the floating-point program is an equality here.
  A one-dimensional tensor is the list of its entries.
\<close>

datatype fl = Fin real | PInf | NInf | NaN

type_synonym tensor = "fl list"

fun fl_neg :: "fl \<Rightarrow> fl" where
  "fl_neg (Fin a) = Fin (- a)"
| "fl_neg PInf = NInf"
| "fl_neg NInf = PInf"
| "fl_neg NaN = NaN"

fun fl_add :: "fl \<Rightarrow> fl \<Rightarrow> fl" where
  "fl_add NaN y = NaN"
| "fl_add x NaN = NaN"
| "fl_add (Fin a) (Fin b) = Fin (a + b)"
| "fl_add PInf NInf = NaN"
| "fl_add NInf PInf = NaN"
| "fl_add PInf y = PInf"
| "fl_add x PInf = PInf"
| "fl_add NInf y = NInf"
| "fl_add x NInf = NInf"

definition fl_sub :: "fl \<Rightarrow> fl \<Rightarrow> fl" where
  "fl_sub x y = fl_add x (fl_neg y)"

text \<open>The sign of an infinite product or quotient: \<open>sgn_inf pos\<close>.\<close>

definition sgn_inf :: "bool \<Rightarrow> fl" where
  "sgn_inf pos = (if pos then PInf else NInf)"

fun fl_mul :: "fl \<Rightarrow> fl \<Rightarrow> fl" where
  "fl_mul NaN y = NaN"
| "fl_mul x NaN = NaN"
| "fl_mul (Fin a) (Fin b) = Fin (a * b)"
| "fl_mul (Fin a) PInf = (if a = 0 then NaN else sgn_inf (0 < a))"
| "fl_mul (Fin a) NInf = (if a = 0 then NaN else sgn_inf (a < 0))"
| "fl_mul PInf (Fin b) = (if b = 0 then NaN else sgn_inf (0 < b))"
| "fl_mul NInf (Fin b) = (if b = 0 then NaN else sgn_inf (b < 0))"
| "fl_mul PInf PInf = PInf"
| "fl_mul NInf NInf = PInf"
| "fl_mul PInf NInf = NInf"
| "fl_mul NInf PInf = NInf"

text \<open>Division: \<open>0 / 0\<close> and \<open>inf / inf\<close> are NaN, \<open>a / 0\<close> is infinite.\<close>

fun fl_div :: "fl \<Rightarrow> fl \<Rightarrow> fl" where
  "fl_div NaN y = NaN"
| "fl_div x NaN = NaN"
| "fl_div (Fin a) (Fin b) =
     (if b = 0 then (if a = 0 then NaN else sgn_inf (0 < a)) else Fin (a / b))"
| "fl_div (Fin a) PInf = Fin 0"
| "fl_div (Fin a) NInf = Fin 0"
| "fl_div PInf (Fin b) = sgn_inf (0 \<le> b)"
| "fl_div NInf (Fin b) = sgn_inf (b < 0)"
| "fl_div PInf y = NaN"
| "fl_div NInf y = NaN"

fun fl_log :: "fl \<Rightarrow> fl" where
  "fl_log (Fin a) = (if a < 0 then NaN else if a = 0 then NInf else Fin (ln a))"
| "fl_log PInf = PInf"
| "fl_log NInf = NaN"
| "fl_log NaN = NaN"

fun fl_exp :: "fl \<Rightarrow> fl" where
  "fl_exp (Fin a) = Fin (exp a)"
| "fl_exp PInf = PInf"
| "fl_exp NInf = Fin 0"
| "fl_exp NaN = NaN"

fun fl_abs :: "fl \<Rightarrow> fl" where
  "fl_abs (Fin a) = Fin \<bar>a\<bar>"
| "fl_abs PInf = PInf"
| "fl_abs NInf = PInf"
| "fl_abs NaN = NaN"

fun fl_sqrt :: "fl \<Rightarrow> fl" where
  "fl_sqrt (Fin a) = (if a < 0 then NaN else Fin (sqrt a))"
| "fl_sqrt PInf = PInf"
| "fl_sqrt NInf = NaN"
| "fl_sqrt NaN = NaN"

fun is_finite :: "fl \<Rightarrow> bool" where
  "is_finite (Fin a) = True"
| "is_finite x = False"

fun is_nan :: "fl \<Rightarrow> bool" where
  "is_nan NaN = True"
| "is_nan x = False"

text \<open>\<^verbatim>\<open>t.sum()\<close>, \<^verbatim>\<open>t.log()\<close>, \<^verbatim>\<open>t.softmax(0)\<close> and \<^verbatim>\<open>t.logsumexp(0)\<close> on a
  one-dimensional tensor.\<close>

fun tsum :: "tensor \<Rightarrow> fl" where
  "tsum [] = Fin 0"
| "tsum (x # xs) = fl_add x (tsum xs)"

definition tlog :: "tensor \<Rightarrow> tensor" where
  "tlog t = map fl_log t"

definition softmax :: "tensor \<Rightarrow> tensor" where
  "softmax t = map (\<lambda>x. fl_div (fl_exp x) (tsum (map fl_exp t))) t"

definition logsumexp :: "tensor \<Rightarrow> fl" where
  "logsumexp t = fl_log (tsum (map fl_exp t))"

section \<open>Python values and exceptions\<close>

datatype error =
    ValueError string
  | TypeError
  | IndexError
  | RuntimeError

text \<open>
  A call on a model either returns, leaving the model in a new state, or raises; an
  exception leaves the model in the state reached when it was raised.
\<close>

datatype 's outcome = Done 's | Raised error 's

text \<open>
  The argument of \<^verbatim>\<open>set_parameters\<close> is a Python value that holds tensors: a list, or the
  generator object that a function with \<^verbatim>\<open>yield\<close> returns. Subscripting \<^verbatim>\<open>params[i]\<close>
  works on a list, raises IndexError past its end, and raises TypeError on a generator
  (a generator is not subscriptable). \<^verbatim>\<open>list(params)\<close> collects what a generator yields.
\<close>

datatype pyseq = PyList "tensor list" | Generator "tensor list"

fun subscript :: "pyseq \<Rightarrow> nat \<Rightarrow> error + tensor" where
  "subscript (PyList ts) i = (if i < length ts then Inr (ts ! i) else Inl IndexError)"
| "subscript (Generator ts) i = Inl TypeError"

fun py_list :: "pyseq \<Rightarrow> pyseq" where
  "py_list (PyList ts) = PyList ts"
| "py_list (Generator ts) = PyList ts"

text \<open>A constructor argument checked with \<^verbatim>\<open>isinstance(x, torch.Tensor)\<close>.\<close>

datatype pyobj = Tensor tensor | NotTensor

section \<open>The categorical distribution of the library\<close>

text \<open>
  \<^verbatim>\<open>Categorical(logits=l)\<close> stores the normalised logits \<^verbatim>\<open>l - l.logsumexp(-1)\<close> and
  rejects a NaN among them; logits that hold a NaN or \<open>+inf\<close>, or that are all \<open>-inf\<close>,
  are rejected that way. Its \<^verbatim>\<open>log_prob(value)\<close> reads the normalised logits at each
  index of \<^verbatim>\<open>value\<close>, which must lie in the support \<open>0..K-1\<close>. Drawing samples is
  \<^verbatim>\<open>torch.multinomial\<close> on the probabilities, which raises when there is no category or
  no draw is asked for; the routine itself is a parameter \<open>draw\<close> here, a function of the
  normalised logits, the number of draws and the random source.
\<close>

definition Categorical :: "tensor \<Rightarrow> error + tensor" where
  "Categorical l =
     (let nl = map (\<lambda>x. fl_sub x (logsumexp l)) l in
      if list_ex is_nan nl then Inl (ValueError ''logits'') else Inr nl)"

definition in_support :: "nat \<Rightarrow> int \<Rightarrow> bool" where
  "in_support K v = (0 \<le> v \<and> v < int K)"

definition Categorical_log_prob :: "tensor \<Rightarrow> int list \<Rightarrow> error + tensor" where
  "Categorical_log_prob nl vs =
     (if list_all (in_support (length nl)) vs then Inr (map (\<lambda>v. nl ! nat v) vs)
      else Inl (ValueError ''value''))"

section \<open>CategoricalModel\<close>

record cat_model =
  logits :: tensor

text \<open>\<^verbatim>\<open>CategoricalModel.__init__(self, probs=None, logits=None)\<close>: the tests of the
  source in their order; \<open>None\<close> is an argument left out.\<close>

fun CategoricalModel :: "tensor option \<Rightarrow> tensor option \<Rightarrow> error + cat_model" where
  "CategoricalModel (Some probs) (Some lgts) =
     Inl (ValueError ''Both probs and logits provided; only one should be used.'')"
| "CategoricalModel (Some probs) None = Inr \<lparr>logits = tlog probs\<rparr>"
| "CategoricalModel None (Some lgts) = Inr \<lparr>logits = lgts\<rparr>"
| "CategoricalModel None None =
     Inl (ValueError ''Neither probs or logits provided; one must be.'')"

text \<open>\<^verbatim>\<open>torch.rand_like(t)\<close>: a tensor of the shape of \<open>t\<close> filled from the random
  source \<open>u\<close>, whose draws are real numbers.\<close>

definition rand_like :: "(nat \<Rightarrow> real) \<Rightarrow> tensor \<Rightarrow> tensor" where
  "rand_like u t = map (\<lambda>i. Fin (u i)) [0..<length t]"

text \<open>\<^verbatim>\<open>self.logits = torch.rand_like(self.logits).softmax(0).log()\<close>\<close>

definition cat_init_params_random :: "(nat \<Rightarrow> real) \<Rightarrow> cat_model \<Rightarrow> cat_model" where
  "cat_init_params_random u m = m\<lparr>logits := tlog (softmax (rand_like u (logits m)))\<rparr>"

text \<open>\<^verbatim>\<open>sample\<close> and \<^verbatim>\<open>log_prob\<close> build \<^verbatim>\<open>Categorical(logits=self.logits)\<close> and call its
  method; a missing \<^verbatim>\<open>sample_shape\<close> stands for one draw.\<close>

definition cat_sample ::
  "(tensor \<Rightarrow> nat \<Rightarrow> 'r \<Rightarrow> int list) \<Rightarrow> cat_model \<Rightarrow> nat option \<Rightarrow> 'r \<Rightarrow> error + int list" where
  "cat_sample draw m sample_shape rng =
     (let n = (case sample_shape of None \<Rightarrow> 1 | Some k \<Rightarrow> k) in
      case Categorical (logits m) of
        Inl e \<Rightarrow> Inl e
      | Inr nl \<Rightarrow> if length nl = 0 \<or> n = 0 then Inl RuntimeError else Inr (draw nl n rng))"

definition cat_log_prob :: "cat_model \<Rightarrow> int list \<Rightarrow> error + tensor" where
  "cat_log_prob m v =
     (case Categorical (logits m) of
        Inl e \<Rightarrow> Inl e
      | Inr nl \<Rightarrow> Categorical_log_prob nl v)"

text \<open>\<^verbatim>\<open>parameters\<close> is a generator function: \<^verbatim>\<open>yield self.logits\<close>.
  \<^verbatim>\<open>set_parameters\<close> is \<^verbatim>\<open>self.logits = params[0]\<close>.\<close>

definition cat_parameters :: "cat_model \<Rightarrow> pyseq" where
  "cat_parameters m = Generator [logits m]"

definition cat_set_parameters :: "cat_model \<Rightarrow> pyseq \<Rightarrow> cat_model outcome" where
  "cat_set_parameters m params =
     (case subscript params 0 of
        Inl e \<Rightarrow> Raised e m
      | Inr t \<Rightarrow> Done (m\<lparr>logits := t\<rparr>))"

text \<open>
  \<^verbatim>\<open>X.bincount(minlength=K)\<close> raises on a negative entry; otherwise it has
  \<open>max K (max X + 1)\<close> bins and bin \<open>k\<close> holds the number of occurrences of \<open>k\<close>.
\<close>

definition nbins :: "nat \<Rightarrow> int list \<Rightarrow> nat" where
  "nbins minlength X = fold (\<lambda>x n. max n (nat x + 1)) X minlength"

definition bincount :: "int list \<Rightarrow> nat \<Rightarrow> error + nat list" where
  "bincount X minlength =
     (if list_ex (\<lambda>x. x < 0) X then Inl RuntimeError
      else Inr (map (\<lambda>k. count_list X (int k)) [0..<nbins minlength X]))"

definition to_float :: "nat list \<Rightarrow> tensor" where
  "to_float ns = map (\<lambda>n. Fin (real n)) ns"

text \<open>\<^verbatim>\<open>fit\<close>: \<^verbatim>\<open>counts = X.bincount(minlength=self.logits.shape[0]).float()\<close>,
  \<^verbatim>\<open>prob = counts / counts.sum()\<close>, \<^verbatim>\<open>self.logits = prob.log()\<close>.\<close>

definition cat_fit :: "cat_model \<Rightarrow> int list \<Rightarrow> cat_model outcome" where
  "cat_fit m X =
     (case bincount X (length (logits m)) of
        Inl e \<Rightarrow> Raised e m
      | Inr c \<Rightarrow>
          (let counts = to_float c;
               prob = map (\<lambda>x. fl_div x (tsum counts)) counts
           in Done (m\<lparr>logits := tlog prob\<rparr>)))"

section \<open>The multivariate normal distribution of the library\<close>

text \<open>
  The covariance matrix handed to \<^verbatim>\<open>MultivariateNormal\<close> is always \<^verbatim>\<open>v.diag()\<close> for a
  vector \<open>v\<close>, so the matrix is represented by its diagonal. The constructor rejects a
  NaN in \<^verbatim>\<open>loc\<close> and a covariance matrix that is not positive definite, which for a
  diagonal matrix means an entry that is not a positive number (the one-by-one matrix
  holding \<open>+inf\<close> passes the test as well); it keeps the Cholesky factor, here the
  diagonal of square roots. \<^verbatim>\<open>log_prob(value)\<close> checks \<open>value\<close>, one observation, against
  the shape of \<open>loc\<close> and for NaN, and is \<^verbatim>\<open>-0.5 * (D * log(2 * pi) + M) - half_log_det\<close>
  with \<open>M\<close> the squared Mahalanobis distance; the library computes \<open>M\<close> with the full
  matrix, where an infinite difference \<open>value - loc\<close> meets the zeros off the diagonal
  and yields NaN, and it raises on a distribution of dimension 0. A draw is
  \<^verbatim>\<open>loc + L @ eps\<close> for standard normal noise \<open>eps\<close>.
\<close>

record mvn =
  loc :: tensor
  scale_tril :: tensor

fun positive :: "fl \<Rightarrow> bool" where
  "positive (Fin a) = (0 < a)"
| "positive x = False"

definition positive_definite :: "tensor \<Rightarrow> bool" where
  "positive_definite covariance_diag =
     (list_all positive covariance_diag \<or> covariance_diag = [PInf])"

definition MultivariateNormal :: "tensor \<Rightarrow> tensor \<Rightarrow> error + mvn" where
  "MultivariateNormal l covariance_diag =
     (if length l \<noteq> length covariance_diag then Inl RuntimeError
      else if list_ex is_nan l then Inl (ValueError ''loc'')
      else if \<not> positive_definite covariance_diag then Inl (ValueError ''covariance_matrix'')
      else Inr \<lparr>loc = l, scale_tril = map fl_sqrt covariance_diag\<rparr>)"

definition mahalanobis :: "tensor \<Rightarrow> tensor \<Rightarrow> fl" where
  "mahalanobis L diff =
     (if list_all is_finite diff
      then tsum (map2 (\<lambda>d s. fl_mul (fl_div d s) (fl_div d s)) diff L)
      else NaN)"

definition mvn_log_prob :: "mvn \<Rightarrow> tensor \<Rightarrow> error + fl" where
  "mvn_log_prob d v =
     (if length v \<noteq> length (loc d) then Inl (ValueError ''value'')
      else if list_ex is_nan v then Inl (ValueError ''value'')
      else if length (loc d) = 0 then Inl RuntimeError
      else
        (let diff = map2 fl_sub v (loc d);
             M = mahalanobis (scale_tril d) diff;
             half_log_det = tsum (map fl_log (scale_tril d))
         in Inr (fl_sub
              (fl_mul (Fin (- 0.5))
                 (fl_add (fl_mul (Fin (real (length (loc d)))) (Fin (ln (2 * pi)))) M))
              half_log_det)))"

definition mvn_sample :: "mvn \<Rightarrow> nat \<Rightarrow> (nat \<Rightarrow> nat \<Rightarrow> real) \<Rightarrow> tensor list" where
  "mvn_sample d n eps =
     map (\<lambda>k. map (\<lambda>i. fl_add (loc d ! i) (fl_mul (scale_tril d ! i) (Fin (eps k i))))
                [0..<length (loc d)])
         [0..<n]"

section \<open>DiagNormalModel\<close>

record diag_model =
  means :: tensor
  covs :: tensor

text \<open>\<^verbatim>\<open>DiagNormalModel.__init__(self, means, covs)\<close>: the three checks of the source in
  their order, then the two assignments.\<close>

fun DiagNormalModel :: "pyobj \<Rightarrow> pyobj \<Rightarrow> error + diag_model" where
  "DiagNormalModel NotTensor c = Inl (ValueError ''Means must be a tensor.'')"
| "DiagNormalModel (Tensor m) NotTensor = Inl (ValueError ''Covs must be a tensor.'')"
| "DiagNormalModel (Tensor m) (Tensor c) =
     (if length m \<noteq> length c then Inl (ValueError ''Means and covs must have same shape!'')
      else Inr \<lparr>means = m, covs = c\<rparr>)"

text \<open>\<^verbatim>\<open>t.normal_()\<close> and \<^verbatim>\<open>t.log_normal_()\<close> refill a tensor, keeping its shape, with
  draws \<open>z i\<close> and \<open>exp (z i)\<close> of a standard normal source \<open>z\<close>.
  \<open>diag_init_params_random\<close> is the effect of \<^verbatim>\<open>init_params_random\<close> on the two
  parameters when they are two tensor objects that can both be written; the writes in
  place themselves, with shared or unwritable objects, are
  \<open>diag_init_params_random_inplace\<close> below.\<close>

definition normal_fill :: "(nat \<Rightarrow> real) \<Rightarrow> tensor \<Rightarrow> tensor" where
  "normal_fill z t = map (\<lambda>i. Fin (z i)) [0..<length t]"

definition log_normal_fill :: "(nat \<Rightarrow> real) \<Rightarrow> tensor \<Rightarrow> tensor" where
  "log_normal_fill z t = map (\<lambda>i. Fin (exp (z i))) [0..<length t]"

definition diag_init_params_random ::
  "(nat \<Rightarrow> real) \<Rightarrow> (nat \<Rightarrow> real) \<Rightarrow> diag_model \<Rightarrow> diag_model" where
  "diag_init_params_random z1 z2 m =
     (let m1 = m\<lparr>means := normal_fill z1 (means m)\<rparr>
      in m1\<lparr>covs := log_normal_fill z2 (covs m1)\<rparr>)"

text \<open>\<^verbatim>\<open>sample\<close> and \<^verbatim>\<open>log_prob\<close> build
  \<^verbatim>\<open>MultivariateNormal(loc=self.means, covariance_matrix=self.covs.abs().diag())\<close> and call
  its method.\<close>

definition diag_sample ::
  "diag_model \<Rightarrow> nat option \<Rightarrow> (nat \<Rightarrow> nat \<Rightarrow> real) \<Rightarrow> error + tensor list" where
  "diag_sample m sample_shape eps =
     (let n = (case sample_shape of None \<Rightarrow> 1 | Some k \<Rightarrow> k) in
      case MultivariateNormal (means m) (map fl_abs (covs m)) of
        Inl e \<Rightarrow> Inl e
      | Inr d \<Rightarrow> Inr (mvn_sample d n eps))"

definition diag_log_prob :: "diag_model \<Rightarrow> tensor \<Rightarrow> error + fl" where
  "diag_log_prob m v =
     (case MultivariateNormal (means m) (map fl_abs (covs m)) of
        Inl e \<Rightarrow> Inl e
      | Inr d \<Rightarrow> mvn_log_prob d v)"

definition diag_parameters :: "diag_model \<Rightarrow> pyseq" where
  "diag_parameters m = Generator [means m, covs m]"

text \<open>The two assignments of \<^verbatim>\<open>set_parameters\<close> run one after the other, so the second
  subscript can raise after \<open>means\<close> has been replaced. (The \<^verbatim>\<open>print\<close> before them only
  writes to standard output.)\<close>

definition diag_set_parameters :: "diag_model \<Rightarrow> pyseq \<Rightarrow> diag_model outcome" where
  "diag_set_parameters m params =
     (case subscript params 0 of
        Inl e \<Rightarrow> Raised e m
      | Inr t0 \<Rightarrow>
          (let m1 = m\<lparr>means := t0\<rparr> in
           case subscript params 1 of
             Inl e \<Rightarrow> Raised e m1
           | Inr t1 \<Rightarrow> Done (m1\<lparr>covs := t1\<rparr>)))"

text \<open>
  A batch \<open>X\<close> of \<open>N\<close> observations of dimension \<open>D\<close> is a two-dimensional tensor: its
  rows, each of length \<open>D\<close>, and its number of columns \<open>D\<close> (which the rows alone do
  not give when \<open>N = 0\<close>).
  \<^verbatim>\<open>X.mean(0)\<close> is the mean of each column. \<^verbatim>\<open>X.std(0)\<close> is called with the library's
  default, Bessel's correction: the sum of squared deviations is divided by
  \<open>max 0 (N - 1)\<close>, which is the truncating subtraction on \<open>nat\<close>.
\<close>

record tensor2 =
  ncols :: nat
  rows :: "tensor list"

definition column :: "tensor2 \<Rightarrow> nat \<Rightarrow> tensor" where
  "column X j = map (\<lambda>r. r ! j) (rows X)"

definition tmean :: "tensor \<Rightarrow> fl" where
  "tmean c = fl_div (tsum c) (Fin (real (length c)))"

definition tstd :: "tensor \<Rightarrow> fl" where
  "tstd c =
     fl_sqrt (fl_div (tsum (map (\<lambda>x. fl_mul (fl_sub x (tmean c)) (fl_sub x (tmean c))) c))
                     (Fin (real (length c - 1))))"

definition mean0 :: "tensor2 \<Rightarrow> tensor" where
  "mean0 X = map (\<lambda>j. tmean (column X j)) [0..<ncols X]"

definition std0 :: "tensor2 \<Rightarrow> tensor" where
  "std0 X = map (\<lambda>j. tstd (column X j)) [0..<ncols X]"

definition pow2 :: "tensor \<Rightarrow> tensor" where
  "pow2 t = map (\<lambda>x. fl_mul x x) t"

text \<open>\<^verbatim>\<open>fit\<close>: \<^verbatim>\<open>self.means = X.mean(0)\<close>, then \<^verbatim>\<open>self.covs = X.std(0).pow(2)\<close>.\<close>

definition diag_fit :: "diag_model \<Rightarrow> tensor2 \<Rightarrow> diag_model" where
  "diag_fit m X =
     (let m1 = m\<lparr>means := mean0 X\<rparr>
      in m1\<lparr>covs := pow2 (std0 X)\<rparr>)"

section \<open>The range of float32\<close>

text \<open>
  Tensors have the default dtype float32. A result of magnitude \<open>2^128 - 2^103\<close> or
  more (the largest finite float32 plus half a unit in the last place) is infinite, and
  one of magnitude \<open>2^-150\<close> or less (half the smallest subnormal) is zero; \<open>float32\<close>
  says so, and leaves the rounding of the results in between out, as everywhere here.
  The normal float32 numbers have a magnitude from \<open>2^-126\<close> on. \<^verbatim>\<open>c * p\<close> for a scalar
  \<open>c\<close> and a tensor \<open>p\<close> converts \<open>c\<close> to float32 and multiplies each entry.
\<close>

fun float32 :: "fl \<Rightarrow> fl" where
  "float32 (Fin x) =
     (if 2 ^ 128 - 2 ^ 103 \<le> \<bar>x\<bar> then sgn_inf (0 < x)
      else if \<bar>x\<bar> \<le> 1 / 2 ^ 150 then Fin 0
      else Fin x)"
| "float32 y = y"

definition normal32 :: "real \<Rightarrow> bool" where
  "normal32 x = (1 / 2 ^ 126 \<le> \<bar>x\<bar> \<and> \<bar>x\<bar> < 2 ^ 128 - 2 ^ 103)"

definition float32_scale :: "real \<Rightarrow> tensor \<Rightarrow> tensor" where
  "float32_scale c p = map (\<lambda>x. float32 (fl_mul (float32 (Fin c)) x)) p"

section \<open>Tensor objects and writes in place\<close>

text \<open>
  Every method but one rebinds the attributes of the model to tensors
  (\<^verbatim>\<open>self.means = ...\<close>), which the records above describe. \<^verbatim>\<open>DiagNormalModel.init_params_random\<close>
  instead writes into the tensor objects that the attributes refer to:
  \<^verbatim>\<open>self.means.normal_()\<close>, then \<^verbatim>\<open>self.covs.log_normal_()\<close>. For it the model holds two
  references into a store of tensor objects; the two references may be the same object.
  A write in place raises RuntimeError on a leaf tensor that requires grad, and otherwise
  refills the object, keeping its shape.
\<close>

type_synonym addr = nat

record tobj =
  entries :: tensor
  requires_grad_leaf :: bool

type_synonym store = "addr \<Rightarrow> tobj"

record diag_self =
  means_ref :: addr
  covs_ref :: addr

definition diag_view :: "diag_self \<Rightarrow> store \<Rightarrow> diag_model" where
  "diag_view s st = \<lparr>means = entries (st (means_ref s)), covs = entries (st (covs_ref s))\<rparr>"

definition write_inplace :: "(tensor \<Rightarrow> tensor) \<Rightarrow> addr \<Rightarrow> store \<Rightarrow> error + store" where
  "write_inplace f a st =
     (if requires_grad_leaf (st a) then Inl RuntimeError
      else Inr (st(a := (st a)\<lparr>entries := f (entries (st a))\<rparr>)))"

definition diag_init_params_random_inplace ::
  "(nat \<Rightarrow> real) \<Rightarrow> (nat \<Rightarrow> real) \<Rightarrow> diag_self \<Rightarrow> store \<Rightarrow> store outcome" where
  "diag_init_params_random_inplace z1 z2 s st =
     (case write_inplace (normal_fill z1) (means_ref s) st of
        Inl e \<Rightarrow> Raised e st
      | Inr st1 \<Rightarrow>
          (case write_inplace (log_normal_fill z2) (covs_ref s) st1 of
             Inl e \<Rightarrow> Raised e st1
           | Inr st2 \<Rightarrow> Done st2))"

section \<open>Calls of the methods\<close>

text \<open>
  A call of any method of a model, as an outcome on the model: \<^verbatim>\<open>sample\<close>,
  \<^verbatim>\<open>log_prob\<close> and \<^verbatim>\<open>parameters\<close> assign nothing, so they leave the model as it is
  whether they return or raise.
\<close>

fun unassigned :: "'s \<Rightarrow> error + 'a \<Rightarrow> 's outcome" where
  "unassigned s (Inl e) = Raised e s"
| "unassigned s (Inr x) = Done s"

datatype cat_method =
    CallInitParamsRandom "nat \<Rightarrow> real"
  | CallSample "nat option"
  | CallLogProb "int list"
  | CallParameters
  | CallSetParameters pyseq
  | CallFit "int list"

fun cat_call ::
  "(tensor \<Rightarrow> nat \<Rightarrow> 'r \<Rightarrow> int list) \<Rightarrow> 'r \<Rightarrow> cat_model \<Rightarrow> cat_method \<Rightarrow> cat_model outcome" where
  "cat_call draw rng m (CallInitParamsRandom u) = Done (cat_init_params_random u m)"
| "cat_call draw rng m (CallSample sample_shape) = unassigned m (cat_sample draw m sample_shape rng)"
| "cat_call draw rng m (CallLogProb v) = unassigned m (cat_log_prob m v)"
| "cat_call draw rng m CallParameters = Done m"
| "cat_call draw rng m (CallSetParameters params) = cat_set_parameters m params"
| "cat_call draw rng m (CallFit X) = cat_fit m X"

text \<open>The methods of a DiagNormalModel that rebind or only read; \<^verbatim>\<open>init_params_random\<close>
  is \<open>diag_init_params_random_inplace\<close> on the store.\<close>

datatype diag_method =
    DiagCallSample "nat option" "nat \<Rightarrow> nat \<Rightarrow> real"
  | DiagCallLogProb tensor
  | DiagCallParameters
  | DiagCallSetParameters pyseq
  | DiagCallFit tensor2

fun diag_call :: "diag_model \<Rightarrow> diag_method \<Rightarrow> diag_model outcome" where
  "diag_call m (DiagCallSample sample_shape eps) = unassigned m (diag_sample m sample_shape eps)"
| "diag_call m (DiagCallLogProb v) = unassigned m (diag_log_prob m v)"
| "diag_call m DiagCallParameters = Done m"
| "diag_call m (DiagCallSetParameters params) = diag_set_parameters m params"
| "diag_call m (DiagCallFit X) = Done (diag_fit m X)"

section \<open>Sequences of mutating calls\<close>

text \<open>
  The life of a model after construction: any sequence of calls of
  \<^verbatim>\<open>init_params_random\<close>, \<^verbatim>\<open>fit\<close> and \<^verbatim>\<open>set_parameters\<close>. A call that raises leaves the
  state it had reached, and the caller may go on with the next call.
\<close>

fun state :: "'s outcome \<Rightarrow> 's" where
  "state (Done s) = s"
| "state (Raised e s) = s"

datatype cat_op =
    InitParamsRandom "nat \<Rightarrow> real"
  | Fit "int list"
  | SetParameters pyseq

fun cat_step :: "cat_model \<Rightarrow> cat_op \<Rightarrow> cat_model" where
  "cat_step m (InitParamsRandom u) = cat_init_params_random u m"
| "cat_step m (Fit X) = state (cat_fit m X)"
| "cat_step m (SetParameters params) = state (cat_set_parameters m params)"

definition cat_run :: "cat_model \<Rightarrow> cat_op list \<Rightarrow> cat_model" where
  "cat_run m ops = foldl cat_step m ops"

datatype diag_op =
    DiagInitParamsRandom "nat \<Rightarrow> real" "nat \<Rightarrow> real"
  | DiagFit tensor2
  | DiagSetParameters pyseq

fun diag_step :: "diag_model \<Rightarrow> diag_op \<Rightarrow> diag_model" where
  "diag_step m (DiagInitParamsRandom z1 z2) = diag_init_params_random z1 z2 m"
| "diag_step m (DiagFit X) = diag_fit m X"
| "diag_step m (DiagSetParameters params) = state (diag_set_parameters m params)"

definition diag_run :: "diag_model \<Rightarrow> diag_op list \<Rightarrow> diag_model" where
  "diag_run m ops = foldl diag_step m ops"

text \<open>
  The calls that keep the shape of a CategoricalModel with \<open>K\<close> categories and keep
  its logits free of NaN: any \<open>init_params_random\<close>; a \<open>fit\<close> that raises, or whose data
  are non-empty with every index in \<open>0..K-1\<close>; a \<open>set_parameters\<close> that raises on
  \<open>params[0]\<close>, or whose \<open>params[0]\<close> has length \<open>K\<close> and no NaN.
\<close>

fun cat_op_ok :: "nat \<Rightarrow> cat_op \<Rightarrow> bool" where
  "cat_op_ok K (InitParamsRandom u) = True"
| "cat_op_ok K (Fit X) = (list_ex (\<lambda>x. x < 0) X \<or> (X \<noteq> [] \<and> list_all (in_support K) X))"
| "cat_op_ok K (SetParameters params) =
     (case subscript params 0 of
        Inl e \<Rightarrow> True
      | Inr t \<Rightarrow> length t = K \<and> \<not> list_ex is_nan t)"

text \<open>
  The calls that keep both parameters of a DiagNormalModel at length \<open>D\<close>: any
  \<open>init_params_random\<close>; a \<open>fit\<close> on data of dimension \<open>D\<close>; a \<open>set_parameters\<close> that
  raises on \<open>params[0]\<close>, or whose \<open>params[0]\<close> has length \<open>D\<close> and whose \<open>params[1]\<close>,
  if there is one, has length \<open>D\<close> too.
\<close>

fun diag_op_ok :: "nat \<Rightarrow> diag_op \<Rightarrow> bool" where
  "diag_op_ok D (DiagInitParamsRandom z1 z2) = True"
| "diag_op_ok D (DiagFit X) = (ncols X = D)"
| "diag_op_ok D (DiagSetParameters params) =
     (case subscript params 0 of
        Inl e \<Rightarrow> True
      | Inr t0 \<Rightarrow> length t0 = D \<and>
          (case subscript params 1 of
             Inl e \<Rightarrow> True
           | Inr t1 \<Rightarrow> length t1 = D))"

section \<open>Sample statistics\<close>



text \<open>The invariants of the two models: the shape, and for the logits the absence of NaN.\<close>

definition cat_inv :: "nat \<Rightarrow> cat_model \<Rightarrow> bool" where
  "cat_inv K m = (length (logits m) = K \<and> \<not> list_ex is_nan (logits m))"

definition diag_inv :: "nat \<Rightarrow> diag_model \<Rightarrow> bool" where
  "diag_inv D m = (length (means m) = D \<and> length (covs m) = D)"

section \<open>The normal log density\<close>

text \<open>The log density at \<open>x\<close> of the normal distribution with mean \<open>mu\<close> and independent
  variances \<open>vs\<close>, in the form the library computes it from the Cholesky factor.\<close>

definition normal_log_density :: "real list \<Rightarrow> real list \<Rightarrow> real list \<Rightarrow> real" where
  "normal_log_density mu vs x =
     - 0.5 * (real (length mu) * ln (2 * pi)
              + sum_list (map2 (\<lambda>d s. (d / s) * (d / s)) (map2 (-) x mu) (map sqrt vs)))
     - sum_list (map ln (map sqrt vs))"

section \<open>Auxiliary facts\<close>

lemma tsum_Fin: "tsum (map Fin xs) = Fin (sum_list xs)"
  by (induction xs) simp_all

lemma tsum_map_Fin: "tsum (map (\<lambda>x. Fin (f x)) xs) = Fin (sum_list (map f xs))"
  by (induction xs) simp_all

lemma sum_list_pos:
  "xs \<noteq> [] \<Longrightarrow> list_all (\<lambda>x. 0 < x) xs \<Longrightarrow> 0 < sum_list (xs :: real list)"
  by (induction xs)
     (auto intro: add_pos_nonneg add_pos_pos simp: sum_list_nonneg list_all_iff less_imp_le)

text \<open>A model built from positive probabilities.\<close>

lemma tlog_pos: "list_all (\<lambda>x. 0 < x) q \<Longrightarrow> tlog (map Fin q) = map (\<lambda>x. Fin (ln x)) q"
  by (induction q) (simp_all add: tlog_def)

lemma tsum_exp_tlog:
  "list_all (\<lambda>x. 0 < x) q \<Longrightarrow> tsum (map fl_exp (tlog (map Fin q))) = Fin (sum_list q)"
  by (induction q) (simp_all add: tlog_def)

lemma logsumexp_pos:
  assumes "list_all (\<lambda>x. 0 < x) q" and "q \<noteq> []"
  shows "logsumexp (tlog (map Fin q)) = Fin (ln (sum_list q))"
proof -
  have "0 < sum_list q" using assms by (simp add: sum_list_pos)
  then show ?thesis
    using assms(1) by (simp add: logsumexp_def tsum_exp_tlog)
qed

lemma Categorical_pos:
  assumes "list_all (\<lambda>x. 0 < x) q" and "q \<noteq> []"
  shows "Categorical (tlog (map Fin q)) = Inr (map (\<lambda>x. Fin (ln (x / sum_list q))) q)"
proof -
  have S: "0 < sum_list q" using assms by (simp add: sum_list_pos)
  have "fl_sub (Fin (ln x)) (Fin (ln (sum_list q))) = Fin (ln (x / sum_list q))"
    if "x \<in> set q" for x
  proof -
    have "0 < x" using that assms(1) by (simp add: list_all_iff)
    then show ?thesis using S by (simp add: fl_sub_def ln_div)
  qed
  then have "map (\<lambda>x. fl_sub x (Fin (ln (sum_list q)))) (map (\<lambda>x. Fin (ln x)) q)
        = map (\<lambda>x. Fin (ln (x / sum_list q))) q"
    by simp
  then have nl: "map (\<lambda>x. fl_sub x (logsumexp (tlog (map Fin q)))) (tlog (map Fin q))
        = map (\<lambda>x. Fin (ln (x / sum_list q))) q"
    unfolding logsumexp_pos[OF assms] unfolding tlog_pos[OF assms(1)] .
  have "\<not> list_ex is_nan (map (\<lambda>x. Fin (ln (x / sum_list q))) q)"
    by (simp add: list_ex_iff)
  then show ?thesis
    by (simp only: Categorical_def Let_def nl if_False)
qed

lemma cat_log_prob_pos:
  assumes "list_all (\<lambda>x. 0 < x) q" and "q \<noteq> []"
  shows "cat_log_prob \<lparr>logits = tlog (map Fin q)\<rparr> vs =
     (if list_all (in_support (length q)) vs
      then Inr (map (\<lambda>v. Fin (ln (q ! nat v / sum_list q))) vs)
      else Inl (ValueError ''value''))"
proof (cases "list_all (in_support (length q)) vs")
  case True
  then have "nat v < length q" if "v \<in> set vs" for v
    using that by (auto simp: list_all_iff in_support_def)
  then have "map (\<lambda>v. map (\<lambda>x. Fin (ln (x / sum_list q))) q ! nat v) vs
      = map (\<lambda>v. Fin (ln (q ! nat v / sum_list q))) vs"
    by simp
  then show ?thesis
    using True by (simp add: cat_log_prob_def Categorical_pos[OF assms] Categorical_log_prob_def)
next
  case False
  then show ?thesis
    by (simp add: cat_log_prob_def Categorical_pos[OF assms] Categorical_log_prob_def)
qed


text \<open>Counting into bins.\<close>

lemma tsum_to_float: "tsum (to_float c) = Fin (real (sum_list c))"
  by (induction c) (simp_all add: to_float_def)

lemma support_nat: "in_support K x \<Longrightarrow> nat x < K"
  unfolding in_support_def by linarith

lemma nbins_support: "list_all (in_support K) X \<Longrightarrow> nbins K X = K"
proof -
  have "fold (\<lambda>x n. max n (nat x + 1)) X K = K" if "list_all (in_support K) X"
    using that
  proof (induction X)
    case Nil
    then show ?case by simp
  next
    case (Cons x X)
    then have "max K (nat x + 1) = K"
      using support_nat[of K x] by simp
    then show ?case using Cons by simp
  qed
  then show "list_all (in_support K) X \<Longrightarrow> nbins K X = K"
    by (simp add: nbins_def)
qed

lemma bincount_support:
  assumes "list_all (in_support K) X"
  shows "bincount X K = Inr (map (\<lambda>k. count_list X (int k)) [0..<K])"
proof -
  have "\<not> list_ex (\<lambda>x. x < 0) X"
    using assms by (auto simp: list_all_iff list_ex_iff in_support_def)
  then show ?thesis
    by (simp add: bincount_def nbins_support[OF assms])
qed

lemma indicator_sum:
  assumes "in_support K x"
  shows "(\<Sum>k\<leftarrow>[0..<K]. if x = int k then 1 else 0) = (1::nat)"
proof -
  have "(\<Sum>k\<leftarrow>[0..<K]. if x = int k then 1 else 0) = (\<Sum>k\<in>{0..<K}. if k = nat x then 1 else (0::nat))"
    using assms unfolding interv_sum_list_conv_sum_set_nat
    by (intro sum.cong) (auto simp: in_support_def)
  also have "\<dots> = 1"
    using support_nat[OF assms] by simp
  finally show ?thesis .
qed

lemma sum_count_support:
  "list_all (in_support K) X \<Longrightarrow> (\<Sum>k\<leftarrow>[0..<K]. count_list X (int k)) = length X"
proof (induction X)
  case Nil
  then show ?case by simp
next
  case (Cons x X)
  have "(\<Sum>k\<leftarrow>[0..<K]. count_list (x # X) (int k))
      = (\<Sum>k\<leftarrow>[0..<K]. count_list X (int k) + (if x = int k then 1 else 0))"
    by (intro arg_cong[where f=sum_list] map_cong) auto
  also have "\<dots> = (\<Sum>k\<leftarrow>[0..<K]. count_list X (int k)) + (\<Sum>k\<leftarrow>[0..<K]. if x = int k then 1 else 0)"
    by (simp add: sum_list_addf)
  finally show ?case
    using Cons by (simp add: indicator_sum)
qed

lemma cat_fit_support:
  assumes "list_all (in_support (length (logits m))) X"
  shows "cat_fit m X = Done (m\<lparr>logits :=
           map (\<lambda>k. fl_log (fl_div (Fin (real (count_list X (int k)))) (Fin (real (length X)))))
               [0..<length (logits m)]\<rparr>)"
proof -
  let ?c = "map (\<lambda>k. count_list X (int k)) [0..<length (logits m)]"
  have s: "tsum (to_float ?c) = Fin (real (length X))"
    by (simp only: tsum_to_float sum_count_support[OF assms])
  have L: "tlog (map (\<lambda>x. fl_div x (Fin (real (length X)))) (to_float ?c))
      = map (\<lambda>k. fl_log (fl_div (Fin (real (count_list X (int k)))) (Fin (real (length X)))))
               [0..<length (logits m)]"
    unfolding tlog_def to_float_def map_map by (rule map_cong) simp_all
  show ?thesis
    by (simp only: cat_fit_def bincount_support[OF assms] Let_def s L sum.case)
qed

section \<open>Construction of a CategoricalModel\<close>

text \<open>
  Claim C6. Constructing a CategoricalModel fails with a ValueError when both \<open>probs\<close> and
  \<open>logits\<close> are supplied, fails with a ValueError when neither is, and succeeds exactly
  when precisely one of the two is given.
\<close>

theorem CategoricalModel_exactly_one:
  "(\<exists>msg. CategoricalModel (Some p) (Some l) = Inl (ValueError msg)) \<and>
   (\<exists>msg. CategoricalModel None None = Inl (ValueError msg)) \<and>
   ((\<exists>m. CategoricalModel probs lgts = Inr m) = ((probs = None) \<noteq> (lgts = None)))"
  by (cases probs; cases lgts) simp_all

theorem CategoricalModel_exactly_one_witness:
  "(\<exists>msg. CategoricalModel (Some [Fin 1]) (Some [Fin 0]) = Inl (ValueError msg)) \<and>
   (\<exists>msg. CategoricalModel None None = Inl (ValueError msg)) \<and>
   (\<exists>m. CategoricalModel (Some [Fin 1]) None = Inr m)"
  using CategoricalModel_exactly_one [of "[Fin 1]" "[Fin 0]" "Some [Fin 1]" None] by simp

text \<open>
  Claim C7. For every probability vector \<open>p\<close>, the model built from \<open>probs = p\<close> and the
  model built from \<open>logits = log p\<close> both exist and \<open>log_prob\<close> returns the same result,
  value or exception, on every input for both.
\<close>

theorem probs_logits_equivalent:
  "\<exists>m1 m2. CategoricalModel (Some p) None = Inr m1 \<and>
           CategoricalModel None (Some (tlog p)) = Inr m2 \<and>
           (\<forall>v. cat_log_prob m1 v = cat_log_prob m2 v)"
  by simp

section \<open>Parameters round trip\<close>

text \<open>
  Claim C1 says that \<open>set_parameters\<close> called on the value returned by \<open>parameters()\<close>
  leaves an observationally identical model, for both model types. The code does not do
  that: the docstring of \<^verbatim>\<open>Model.parameters\<close> promises "a list of tensors", but both
  implementations are generator functions, and \<open>set_parameters\<close> subscripts its argument,
  so the call raises TypeError for both model types.
\<close>

theorem set_parameters_generator_raises:
  "cat_set_parameters \<lparr>logits = [Fin 0]\<rparr> (cat_parameters \<lparr>logits = [Fin 0]\<rparr>)
     = Raised TypeError \<lparr>logits = [Fin 0]\<rparr> \<and>
   diag_set_parameters \<lparr>means = [Fin 0], covs = [Fin 1]\<rparr>
       (diag_parameters \<lparr>means = [Fin 0], covs = [Fin 1]\<rparr>)
     = Raised TypeError \<lparr>means = [Fin 0], covs = [Fin 1]\<rparr>"
  by (simp add: cat_set_parameters_def cat_parameters_def diag_set_parameters_def
      diag_parameters_def)

text \<open>
  On the list that the docstring promises, \<open>list(parameters())\<close>, the round trip is as
  the claim says, for both model types: \<open>set_parameters\<close> succeeds and leaves a model
  whose \<open>log_prob\<close> returns the same result on every input and whose \<open>sample\<close> returns
  the same draws from the same random source.
\<close>

lemma set_parameters_list_roundtrip:
  "(\<exists>m'. cat_set_parameters m (py_list (cat_parameters m)) = Done m' \<and>
         (\<forall>v. cat_log_prob m' v = cat_log_prob m v) \<and>
         (\<forall>draw n rng. cat_sample draw m' n rng = cat_sample draw m n rng)) \<and>
   (\<exists>d'. diag_set_parameters d (py_list (diag_parameters d)) = Done d' \<and>
         (\<forall>v. diag_log_prob d' v = diag_log_prob d v) \<and>
         (\<forall>n eps. diag_sample d' n eps = diag_sample d n eps))"
  by (simp add: cat_set_parameters_def cat_parameters_def diag_set_parameters_def
      diag_parameters_def)

section \<open>Failure and mutation\<close>

lemma unassigned_raised: "unassigned s r = Raised e s' \<Longrightarrow> s' = s"
  by (cases r) simp_all

lemma cat_call_atomic: "cat_call draw rng m meth = Raised e m' \<Longrightarrow> m' = m"
  by (cases meth)
     (auto simp: cat_set_parameters_def cat_fit_def Let_def dest: unassigned_raised
        split: sum.splits)

lemma diag_set_parameters_raised:
  assumes "diag_set_parameters d params = Raised e d'"
  shows "d' = d \<or> (\<exists>t. params = PyList [t] \<and> e = IndexError \<and> d' = d\<lparr>means := t\<rparr>)"
proof (cases params)
  case (PyList ts)
  then show ?thesis
    using assms
    by (cases ts) (auto simp: diag_set_parameters_def Let_def split: sum.splits if_splits)
next
  case (Generator ts)
  then show ?thesis
    using assms by (simp add: diag_set_parameters_def)
qed

lemma diag_call_raised:
  assumes "diag_call d meth = Raised e d'"
  shows "d' = d \<or>
     (\<exists>t. meth = DiagCallSetParameters (PyList [t]) \<and> e = IndexError \<and> d' = d\<lparr>means := t\<rparr>)"
proof (cases meth)
  case (DiagCallSetParameters params)
  then show ?thesis
    using assms diag_set_parameters_raised[of d params e d'] by simp
qed (use assms in \<open>auto dest: unassigned_raised\<close>)

text \<open>
  The writes in place of \<open>DiagNormalModel.init_params_random\<close>: how a call can raise;
  that on two writable tensor objects it returns with the effect of
  \<open>diag_init_params_random\<close>; that on one shared writable object both parameters end as
  the log-normal draws; and a store on which \<open>means\<close> is refilled before the call raises.
\<close>

lemma init_inplace_raised:
  assumes "diag_init_params_random_inplace z1 z2 s st = Raised e st'"
  shows "e = RuntimeError \<and>
     (st' = st \<or>
      (means_ref s \<noteq> covs_ref s \<and> \<not> requires_grad_leaf (st (means_ref s)) \<and>
       requires_grad_leaf (st (covs_ref s)) \<and>
       st' = st(means_ref s := (st (means_ref s))\<lparr>entries :=
                 normal_fill z1 (entries (st (means_ref s)))\<rparr>)))"
  using assms
  by (auto simp: diag_init_params_random_inplace_def write_inplace_def
      split: sum.splits if_splits)

lemma init_inplace_returns:
  assumes "\<not> requires_grad_leaf (st (means_ref s))" and "\<not> requires_grad_leaf (st (covs_ref s))"
    and "means_ref s \<noteq> covs_ref s"
  shows "\<exists>st'. diag_init_params_random_inplace z1 z2 s st = Done st' \<and>
           diag_view s st' = diag_init_params_random z1 z2 (diag_view s st)"
  using assms
  by (simp add: diag_init_params_random_inplace_def write_inplace_def diag_view_def
      diag_init_params_random_def Let_def)

lemma init_inplace_shared:
  assumes "\<not> requires_grad_leaf (st (means_ref s))" and "means_ref s = covs_ref s"
  shows "\<exists>st'. diag_init_params_random_inplace z1 z2 s st = Done st' \<and>
           means (diag_view s st') = log_normal_fill z2 (means (diag_view s st)) \<and>
           covs (diag_view s st') = log_normal_fill z2 (means (diag_view s st))"
  using assms
  by (simp add: diag_init_params_random_inplace_def write_inplace_def diag_view_def
      normal_fill_def log_normal_fill_def)

lemma init_inplace_partial_write:
  "diag_init_params_random_inplace (\<lambda>i. 7) (\<lambda>i. 0) \<lparr>means_ref = 0, covs_ref = 1\<rparr>
     (\<lambda>a. \<lparr>entries = [Fin 0], requires_grad_leaf = (a = 1)\<rparr>)
   = Raised RuntimeError
     ((\<lambda>a. \<lparr>entries = [Fin 0], requires_grad_leaf = (a = 1)\<rparr>)
        (0 := \<lparr>entries = [Fin 7], requires_grad_leaf = False\<rparr>))"
  by (simp add: diag_init_params_random_inplace_def write_inplace_def normal_fill_def)

text \<open>
  Claim C3, as stated, fails: \<open>DiagNormalModel.set_parameters\<close> on a list of one tensor
  replaces \<open>means\<close> and then raises IndexError, so the failed call has changed the model.
\<close>

theorem diag_set_parameters_not_atomic:
  "diag_set_parameters \<lparr>means = [Fin 0], covs = [Fin 1]\<rparr> (PyList [[Fin 5]])
     = Raised IndexError \<lparr>means = [Fin 5], covs = [Fin 1]\<rparr>"
  by (simp add: diag_set_parameters_def)

text \<open>
  Claim C3, amended. A call of any method of a CategoricalModel that raises leaves the
  model unchanged. A call of a method of a DiagNormalModel that raises leaves the model
  unchanged, with two exceptions. \<open>set_parameters\<close> on a sequence of exactly one tensor
  raises IndexError after replacing \<open>means\<close> by that tensor, \<open>covs\<close> unchanged.
  \<open>init_params_random\<close>, which writes in place, raises RuntimeError after refilling
  \<open>means\<close>, with \<open>covs\<close> unchanged, when \<open>means\<close> can be written and \<open>covs\<close> is another
  tensor that cannot (a leaf that requires grad); when \<open>means\<close> itself cannot be written
  it raises with nothing changed. (\<open>CategoricalModel.init_params_random\<close>, one
  assignment of a fresh tensor, and \<open>DiagNormalModel.fit\<close> on a floating-point batch do
  not raise.)
\<close>

theorem failure_leaves_state:
  "(cat_call draw rng m meth = Raised e1 m' \<longrightarrow> m' = m) \<and>
   (diag_call d dmeth = Raised e2 d' \<longrightarrow>
      d' = d \<or>
      (\<exists>t. dmeth = DiagCallSetParameters (PyList [t]) \<and> e2 = IndexError \<and>
           d' = d\<lparr>means := t\<rparr>)) \<and>
   (diag_init_params_random_inplace z1 z2 s st = Raised e3 st' \<longrightarrow>
      e3 = RuntimeError \<and>
      (st' = st \<or>
       (means_ref s \<noteq> covs_ref s \<and> \<not> requires_grad_leaf (st (means_ref s)) \<and>
        requires_grad_leaf (st (covs_ref s)) \<and>
        st' = st(means_ref s := (st (means_ref s))\<lparr>entries :=
                  normal_fill z1 (entries (st (means_ref s)))\<rparr>))))"
  using cat_call_atomic[of draw rng m meth e1 m'] diag_call_raised[of d dmeth e2 d']
    init_inplace_raised[of z1 z2 s st e3 st']
  by blast

theorem failure_leaves_state_witness:
  "cat_call (\<lambda>nl n r. []) () \<lparr>logits = [Fin 0]\<rparr> (CallFit [- 1])
     = Raised RuntimeError \<lparr>logits = [Fin 0]\<rparr> \<and>
   diag_call \<lparr>means = [Fin 0], covs = [Fin 1]\<rparr> (DiagCallLogProb [])
     = Raised (ValueError ''value'') \<lparr>means = [Fin 0], covs = [Fin 1]\<rparr> \<and>
   diag_init_params_random_inplace (\<lambda>i. 0) (\<lambda>i. 0) \<lparr>means_ref = 0, covs_ref = 1\<rparr>
       (\<lambda>a. \<lparr>entries = [Fin 0], requires_grad_leaf = True\<rparr>)
     = Raised RuntimeError (\<lambda>a. \<lparr>entries = [Fin 0], requires_grad_leaf = True\<rparr>)"
  using failure_leaves_state [of "\<lambda>nl n r. []" "()" "\<lparr>logits = [Fin 0]\<rparr>" "CallFit [- 1]"
      RuntimeError "\<lparr>logits = [Fin 0]\<rparr>"
      "\<lparr>means = [Fin 0], covs = [Fin 1]\<rparr>" "DiagCallLogProb []" "ValueError ''value''"
      "\<lparr>means = [Fin 0], covs = [Fin 1]\<rparr>"
      "\<lambda>i. 0" "\<lambda>i. 0" "\<lparr>means_ref = 0, covs_ref = 1\<rparr>"
      "\<lambda>a. \<lparr>entries = [Fin 0], requires_grad_leaf = True\<rparr>" RuntimeError
      "\<lambda>a. \<lparr>entries = [Fin 0], requires_grad_leaf = True\<rparr>"]
  by (simp add: cat_fit_def bincount_def diag_log_prob_def MultivariateNormal_def
      positive_definite_def mvn_log_prob_def diag_init_params_random_inplace_def
      write_inplace_def)

section \<open>Fitting a CategoricalModel\<close>

lemma exp_fit_logits:
  assumes "X \<noteq> []"
  shows "map fl_exp (map (\<lambda>k. fl_log (fl_div (Fin (real (count_list X (int k)))) (Fin (real (length X))))) ks)
       = map (\<lambda>k. Fin (real (count_list X (int k)) / real (length X))) ks"
proof -
  have "fl_exp (fl_log (fl_div (Fin (real n)) (Fin (real (length X))))) = Fin (real n / real (length X))" for n
  proof (cases "n = 0")
    case True
    then show ?thesis using assms by simp
  next
    case False
    then have "0 < real n / real (length X)" using assms by simp
    then show ?thesis using assms by simp
  qed
  then show ?thesis by simp
qed

lemma upt_3: "[0..<3] = [0, 1, 2]"
  by (simp add: upt_rec)

text \<open>
  Claim C5. Given observed category indices \<open>X\<close>, all in the support \<open>0..K-1\<close> of the
  model, \<open>fit\<close> stores as logits the log of the count of each bin \<open>0..K-1\<close> divided by
  the number of observations; for a non-empty \<open>X\<close> the exponentials of the logits are the
  relative frequencies, a vector summing to 1. In particular, fitting \<open>[0, 0, 1, 1, 1, 2]\<close>
  with \<open>K = 3\<close> gives the probabilities \<open>[2/6, 3/6, 1/6]\<close>, and then \<open>log_prob(1)\<close> is
  \<open>ln 0.5\<close>.
\<close>

theorem cat_fit_empirical:
  "(list_all (in_support (length (logits m))) X \<longrightarrow>
      (\<exists>m'. cat_fit m X = Done m' \<and>
         logits m' = map (\<lambda>k. fl_log (fl_div (Fin (real (count_list X (int k))))
                                              (Fin (real (length X)))))
                          [0..<length (logits m)] \<and>
         (X \<noteq> [] \<longrightarrow>
            map fl_exp (logits m') = map (\<lambda>k. Fin (real (count_list X (int k)) / real (length X)))
                                         [0..<length (logits m)] \<and>
            tsum (map fl_exp (logits m')) = Fin 1))) \<and>
   (length (logits m) = 3 \<longrightarrow>
      (\<exists>m'. cat_fit m [0, 0, 1, 1, 1, 2] = Done m' \<and>
         map fl_exp (logits m') = [Fin (2 / 6), Fin (3 / 6), Fin (1 / 6)] \<and>
         cat_log_prob m' [1] = Inr [Fin (ln 0.5)]))"
proof (intro conjI impI)
  assume sup: "list_all (in_support (length (logits m))) X"
  let ?K = "length (logits m)"
  let ?l = "map (\<lambda>k. fl_log (fl_div (Fin (real (count_list X (int k)))) (Fin (real (length X))))) [0..<?K]"
  have e: "map fl_exp ?l = map (\<lambda>k. Fin (real (count_list X (int k)) / real (length X))) [0..<?K]"
    if "X \<noteq> []" using exp_fit_logits[OF that] .
  have "tsum (map fl_exp ?l) = Fin 1" if "X \<noteq> []"
  proof -
    have "sum_list (map (\<lambda>k. real (count_list X (int k)) / s) ks) = real (sum_list (map (\<lambda>k. count_list X (int k)) ks)) / s" for s ks
      by (induction ks) (simp_all add: add_divide_distrib)
    then have "tsum (map fl_exp ?l) = Fin (real (length X) / real (length X))"
      by (simp only: e[OF that] tsum_map_Fin sum_count_support[OF sup])
    then show ?thesis using that by simp
  qed
  then show "\<exists>m'. cat_fit m X = Done m' \<and> logits m' = ?l \<and>
       (X \<noteq> [] \<longrightarrow> map fl_exp (logits m') = map (\<lambda>k. Fin (real (count_list X (int k)) / real (length X))) [0..<?K] \<and>
            tsum (map fl_exp (logits m')) = Fin 1)"
    using e by (simp add: cat_fit_support[OF sup])
next
  assume K: "length (logits m) = 3"
  let ?X = "[0, 0, 1, 1, 1, 2] :: int list"
  let ?q = "[2 / 6, 3 / 6, 1 / 6] :: real list"
  have sup: "list_all (in_support (length (logits m))) ?X"
    by (simp add: K in_support_def)
  have fit: "cat_fit m ?X = Done (m\<lparr>logits := tlog (map Fin ?q)\<rparr>)"
    by (simp add: cat_fit_support[OF sup] K upt_3 tlog_def)
  have q: "list_all (\<lambda>x. 0 < x) ?q" "?q \<noteq> []" by simp_all
  have r: "m\<lparr>logits := tlog (map Fin ?q)\<rparr> = \<lparr>logits = tlog (map Fin ?q)\<rparr>"
    by (cases m) simp
  have lp: "cat_log_prob (m\<lparr>logits := tlog (map Fin ?q)\<rparr>) [1] = Inr [Fin (ln 0.5)]"
    unfolding r cat_log_prob_pos[OF q] by (simp add: in_support_def)
  have "map fl_exp (tlog (map Fin ?q)) = [Fin (2 / 6), Fin (3 / 6), Fin (1 / 6)]"
    by (simp add: tlog_def)
  then show "\<exists>m'. cat_fit m ?X = Done m' \<and>
         map fl_exp (logits m') = [Fin (2 / 6), Fin (3 / 6), Fin (1 / 6)] \<and>
         cat_log_prob m' [1] = Inr [Fin (ln 0.5)]"
    using fit lp by simp
qed

theorem cat_fit_example_witness:
  "list_all (in_support (length (logits \<lparr>logits = [Fin 0, Fin 0, Fin 0]\<rparr>))) [0, 0, 1, 1, 1, 2] \<and>
   length (logits \<lparr>logits = [Fin 0, Fin 0, Fin 0]\<rparr>) = 3 \<and>
   (\<exists>m'. cat_fit \<lparr>logits = [Fin 0, Fin 0, Fin 0]\<rparr> [0, 0, 1, 1, 1, 2] = Done m' \<and>
         map fl_exp (logits m') = [Fin (2 / 6), Fin (3 / 6), Fin (1 / 6)] \<and>
         tsum (map fl_exp (logits m')) = Fin 1 \<and>
         cat_log_prob m' [1] = Inr [Fin (ln 0.5)])"
proof -
  have h: "list_all (in_support (length (logits \<lparr>logits = [Fin 0, Fin 0, Fin 0]\<rparr>))) [0, 0, 1, 1, 1, 2]"
    by (simp add: in_support_def)
  have k: "length (logits \<lparr>logits = [Fin 0, Fin 0, Fin 0]\<rparr>) = 3" by simp
  show ?thesis
    using h k cat_fit_empirical [of "\<lparr>logits = [Fin 0, Fin 0, Fin 0]\<rparr>" "[0, 0, 1, 1, 1, 2]"]
    by auto
qed

section \<open>Random initialisation of a CategoricalModel\<close>

lemma softmax_Fin:
  assumes "xs \<noteq> []"
  shows "softmax (map Fin xs) = map Fin (map (\<lambda>x. exp x / sum_list (map exp xs)) xs)"
proof -
  have S: "0 < sum_list (map exp xs)"
    using assms by (intro sum_list_pos) (simp_all add: list_all_iff)
  have "tsum (map fl_exp (map Fin xs)) = Fin (sum_list (map exp xs))"
    by (induction xs) simp_all
  then show ?thesis
    using S by (simp add: softmax_def)
qed

lemma softmax_pos:
  assumes "(xs :: real list) \<noteq> []"
  shows "list_all (\<lambda>x. 0 < x) (map (\<lambda>x. exp x / sum_list (map exp xs)) xs)"
    and "sum_list (map (\<lambda>x. exp x / sum_list (map exp xs)) xs) = 1"
proof -
  have S: "0 < sum_list (map exp xs)"
    using assms by (intro sum_list_pos) (simp_all add: list_all_iff)
  show "list_all (\<lambda>x. 0 < x) (map (\<lambda>x. exp x / sum_list (map exp xs)) xs)"
    using S by (simp add: list_all_iff)
  have "sum_list (map (\<lambda>x. exp x / s) xs) = sum_list (map exp xs) / s" for s
    by (induction xs) (simp_all add: add_divide_distrib)
  then show "sum_list (map (\<lambda>x. exp x / sum_list (map exp xs)) xs) = 1"
    using S by simp
qed

lemma softmax_tlog:
  assumes "list_all (\<lambda>x. 0 < x) q" and "sum_list q = 1"
  shows "softmax (tlog (map Fin q)) = map Fin q"
proof -
  have "fl_div (fl_exp (Fin (ln x))) (Fin 1) = Fin x" if "x \<in> set q" for x
    using that assms(1) by (simp add: list_all_iff)
  then have "map (\<lambda>x. fl_div (fl_exp x) (Fin 1)) (map (\<lambda>x. Fin (ln x)) q) = map Fin q"
    by simp
  moreover have "tsum (map fl_exp (tlog (map Fin q))) = Fin 1"
    by (simp only: tsum_exp_tlog[OF assms(1)] assms(2))
  ultimately show ?thesis
    by (simp only: softmax_def tlog_pos[OF assms(1)])
qed

lemma rand_like_Fin: "rand_like u t = map Fin (map u [0..<length t])"
  by (simp add: rand_like_def)

text \<open>
  Claim C9, as stated, fails for a model without categories: \<open>init_params_random\<close> on an
  empty logits tensor leaves an empty tensor, whose softmax and whose exponentials sum to
  0, not to 1.
\<close>

theorem init_params_random_empty:
  "tsum (softmax (logits (cat_init_params_random (\<lambda>i. 0) \<lparr>logits = []\<rparr>))) \<noteq> Fin 1 \<and>
   tsum (map fl_exp (logits (cat_init_params_random (\<lambda>i. 0) \<lparr>logits = []\<rparr>))) \<noteq> Fin 1"
  by (simp add: cat_init_params_random_def rand_like_def softmax_def tlog_def)

text \<open>
  Claim C9, amended. After \<open>init_params_random\<close> on a model with at least one category,
  the stored logits are all finite, and their softmax, as well as their exponentials,
  sum to 1.
\<close>

theorem init_params_random_normalised:
  assumes "logits m \<noteq> []"
  shows "list_all is_finite (logits (cat_init_params_random u m)) \<and>
         tsum (softmax (logits (cat_init_params_random u m))) = Fin 1 \<and>
         tsum (map fl_exp (logits (cat_init_params_random u m))) = Fin 1"
proof -
  let ?xs = "map u [0..<length (logits m)]"
  let ?q = "map (\<lambda>x. exp x / sum_list (map exp ?xs)) ?xs"
  have ne: "?xs \<noteq> []" using assms by simp
  have q: "list_all (\<lambda>x. 0 < x) ?q" and s: "sum_list ?q = 1"
    using softmax_pos[OF ne] by blast+
  have l: "logits (cat_init_params_random u m) = tlog (map Fin ?q)"
    unfolding cat_init_params_random_def rand_like_Fin softmax_Fin[OF ne] by simp
  have "list_all is_finite (tlog (map Fin ?q))"
    unfolding tlog_pos[OF q] by (simp add: list_all_iff)
  moreover have "tsum (softmax (tlog (map Fin ?q))) = Fin 1"
    unfolding softmax_tlog[OF q s] tsum_Fin s ..
  moreover have "tsum (map fl_exp (tlog (map Fin ?q))) = Fin 1"
    unfolding tsum_exp_tlog[OF q] s ..
  ultimately show ?thesis
    unfolding l by blast
qed

theorem init_params_random_normalised_witness:
  "logits \<lparr>logits = [Fin 0, Fin 1]\<rparr> \<noteq> [] \<and>
   list_all is_finite (logits (cat_init_params_random (\<lambda>i. 0) \<lparr>logits = [Fin 0, Fin 1]\<rparr>)) \<and>
   tsum (softmax (logits (cat_init_params_random (\<lambda>i. 0) \<lparr>logits = [Fin 0, Fin 1]\<rparr>))) = Fin 1 \<and>
   tsum (map fl_exp (logits (cat_init_params_random (\<lambda>i. 0) \<lparr>logits = [Fin 0, Fin 1]\<rparr>))) = Fin 1"
proof -
  have h: "logits \<lparr>logits = [Fin 0, Fin 1]\<rparr> \<noteq> []" by simp
  show ?thesis
    using h init_params_random_normalised [OF h, of "\<lambda>i. 0"] by blast
qed

section \<open>Fitting a DiagNormalModel\<close>










section \<open>Negative entries of covs\<close>

lemma abs_covs: "map fl_abs (map Fin cs) = map Fin (map abs cs)"
  by simp

lemma MultivariateNormal_Fin:
  assumes "length mu = length vs" and "list_all (\<lambda>c. 0 < c) vs"
  shows "MultivariateNormal (map Fin mu) (map Fin vs)
       = Inr \<lparr>loc = map Fin mu, scale_tril = map Fin (map sqrt vs)\<rparr>"
proof -
  have "\<not> list_ex is_nan (map Fin mu)" by (simp add: list_ex_iff)
  moreover have "positive_definite (map Fin vs)"
    using assms(2) by (simp add: positive_definite_def list_all_iff)
  moreover have "map fl_sqrt (map Fin vs) = map Fin (map sqrt vs)"
    using assms(2) by (auto simp: list_all_iff)
  ultimately show ?thesis
    using assms(1) by (simp add: MultivariateNormal_def)
qed

lemma mahalanobis_Fin:
  assumes "length ds = length ss" and "list_all (\<lambda>s. 0 < s) ss"
  shows "mahalanobis (map Fin ss) (map Fin ds)
       = Fin (sum_list (map2 (\<lambda>d s. (d / s) * (d / s)) ds ss))"
proof -
  have "tsum (map2 (\<lambda>d s. fl_mul (fl_div d s) (fl_div d s)) (map Fin ds) (map Fin ss))
      = Fin (sum_list (map2 (\<lambda>d s. (d / s) * (d / s)) ds ss))"
    using assms by (induction ds ss rule: list_induct2) simp_all
  moreover have "list_all is_finite (map Fin ds)"
    by (simp add: list_all_iff)
  ultimately show ?thesis
    by (simp only: mahalanobis_def if_True)
qed

lemma log_det_Fin:
  assumes "list_all (\<lambda>s. 0 < s) ss"
  shows "tsum (map fl_log (map Fin ss)) = Fin (sum_list (map ln ss))"
  using assms by (induction ss) simp_all

lemma diff_Fin:
  "length x = length mu \<Longrightarrow> map2 fl_sub (map Fin x) (map Fin mu) = map Fin (map2 (-) x mu)"
  by (induction x mu rule: list_induct2) (simp_all add: fl_sub_def)


lemma mvn_log_prob_Fin:
  assumes "length mu = length vs" and "list_all (\<lambda>c. 0 < c) vs" and "length x = length mu"
    and "mu \<noteq> []"
  shows "mvn_log_prob \<lparr>loc = map Fin mu, scale_tril = map Fin (map sqrt vs)\<rparr> (map Fin x)
       = Inr (Fin (normal_log_density mu vs x))"
proof -
  have pos: "list_all (\<lambda>s. 0 < s) (map sqrt vs)"
    using assms(2) by (simp add: list_all_iff)
  have len: "length (map2 (-) x mu) = length (map sqrt vs)"
    using assms(1,3) by simp
  have nn: "\<not> list_ex is_nan (map Fin x)" by (simp add: list_ex_iff)
  show ?thesis
    using nn assms(3,4)
    by (simp add: mvn_log_prob_def Let_def diff_Fin[OF assms(3)] mahalanobis_Fin[OF len pos]
        log_det_Fin[OF pos] normal_log_density_def fl_sub_def del: map_map)
qed


lemma mvn_sample_Fin:
  assumes "length ss = length mu"
  shows "mvn_sample \<lparr>loc = map Fin mu, scale_tril = map Fin ss\<rparr> n eps
       = map (\<lambda>k. map (\<lambda>i. Fin (mu ! i + ss ! i * eps k i)) [0..<length mu]) [0..<n]"
  using assms by (simp add: mvn_sample_def)

lemma abs_pos: "list_all (\<lambda>c. c \<noteq> 0) cs \<Longrightarrow> list_all (\<lambda>c. 0 < c) (map abs (cs :: real list))"
  by (simp add: list_all_iff)

text \<open>
  Claim C8, as stated, fails: the absolute value of a zero entry is not a valid variance,
  and with such an entry (here next to a negative one) both \<open>log_prob\<close> and \<open>sample\<close>
  raise, the covariance matrix not being positive definite.
\<close>

theorem diag_zero_variance_fails:
  "diag_log_prob \<lparr>means = [Fin 0, Fin 0], covs = [Fin (- 1), Fin 0]\<rparr> [Fin 0, Fin 0]
     = Inl (ValueError ''covariance_matrix'') \<and>
   diag_sample \<lparr>means = [Fin 0, Fin 0], covs = [Fin (- 1), Fin 0]\<rparr> None (\<lambda>k i. 0)
     = Inl (ValueError ''covariance_matrix'')"
  by (simp add: diag_log_prob_def diag_sample_def MultivariateNormal_def positive_definite_def)

text \<open>
  Claim C8, amended. When every entry of \<open>covs\<close> is a non-zero number, negative or
  positive (and \<open>means\<close>, \<open>covs\<close> and the observation are finite vectors of one length
  \<open>D \<ge> 1\<close>), \<open>log_prob\<close> and \<open>sample\<close> do not fail: they return what
  \<open>MultivariateNormal(means, diag(|covs|))\<close> returns, the normal log density with
  variances \<open>|covs|\<close> and the draws \<open>means + sqrt |covs| * eps\<close>, and so the same as the
  model whose \<open>covs\<close> are replaced by their absolute values.
\<close>

theorem diag_negative_covs:
  assumes "mu \<noteq> []" and "length cs = length mu" and "length x = length mu"
    and "list_all (\<lambda>c. c \<noteq> 0) cs"
  shows "diag_log_prob \<lparr>means = map Fin mu, covs = map Fin cs\<rparr> (map Fin x)
           = Inr (Fin (normal_log_density mu (map abs cs) x)) \<and>
         diag_log_prob \<lparr>means = map Fin mu, covs = map Fin (map abs cs)\<rparr> (map Fin x)
           = Inr (Fin (normal_log_density mu (map abs cs) x)) \<and>
         (\<exists>d. MultivariateNormal (map Fin mu) (map Fin (map abs cs)) = Inr d \<and>
              mvn_log_prob d (map Fin x) = Inr (Fin (normal_log_density mu (map abs cs) x)) \<and>
              diag_sample \<lparr>means = map Fin mu, covs = map Fin cs\<rparr> n eps
                = Inr (mvn_sample d (case n of None \<Rightarrow> 1 | Some k \<Rightarrow> k) eps)) \<and>
         diag_sample \<lparr>means = map Fin mu, covs = map Fin cs\<rparr> n eps
           = Inr (map (\<lambda>k. map (\<lambda>i. Fin (mu ! i + sqrt \<bar>cs ! i\<bar> * eps k i)) [0..<length mu])
                      [0..<(case n of None \<Rightarrow> 1 | Some k \<Rightarrow> k)]) \<and>
         diag_sample \<lparr>means = map Fin mu, covs = map Fin (map abs cs)\<rparr> n eps
           = diag_sample \<lparr>means = map Fin mu, covs = map Fin cs\<rparr> n eps"
proof -
  let ?vs = "map abs cs"
  let ?d = "\<lparr>loc = map Fin mu, scale_tril = map Fin (map sqrt ?vs)\<rparr>"
  let ?n = "case n of None \<Rightarrow> 1 | Some k \<Rightarrow> k"
  have len: "length mu = length ?vs" using assms(2) by simp
  have pos: "list_all (\<lambda>c. 0 < c) ?vs" by (rule abs_pos[OF assms(4)])
  have idem: "map abs ?vs = ?vs" by simp
  have mvn: "MultivariateNormal (map Fin mu) (map Fin ?vs) = Inr ?d"
    by (rule MultivariateNormal_Fin[OF len pos])
  have lp: "mvn_log_prob ?d (map Fin x) = Inr (Fin (normal_log_density mu ?vs x))"
    by (rule mvn_log_prob_Fin[OF len pos assms(3) assms(1)])
  have l1: "diag_log_prob \<lparr>means = map Fin mu, covs = map Fin cs\<rparr> (map Fin x)
           = Inr (Fin (normal_log_density mu ?vs x))"
    by (simp only: diag_log_prob_def diag_model.simps abs_covs mvn sum.case lp)
  have l2: "diag_log_prob \<lparr>means = map Fin mu, covs = map Fin ?vs\<rparr> (map Fin x)
           = Inr (Fin (normal_log_density mu ?vs x))"
    by (simp only: diag_log_prob_def diag_model.simps abs_covs idem mvn sum.case lp)
  have s1: "diag_sample \<lparr>means = map Fin mu, covs = map Fin cs\<rparr> n eps = Inr (mvn_sample ?d ?n eps)"
    by (simp only: diag_sample_def diag_model.simps abs_covs mvn sum.case Let_def)
  have s2: "diag_sample \<lparr>means = map Fin mu, covs = map Fin ?vs\<rparr> n eps = Inr (mvn_sample ?d ?n eps)"
    by (simp only: diag_sample_def diag_model.simps abs_covs idem mvn sum.case Let_def)
  have "mvn_sample ?d ?n eps
      = map (\<lambda>k. map (\<lambda>i. Fin (mu ! i + map sqrt ?vs ! i * eps k i)) [0..<length mu]) [0..<?n]"
    by (rule mvn_sample_Fin) (simp add: assms(2))
  also have "\<dots> = map (\<lambda>k. map (\<lambda>i. Fin (mu ! i + sqrt \<bar>cs ! i\<bar> * eps k i)) [0..<length mu]) [0..<?n]"
    using assms(2) by simp
  finally have s3: "mvn_sample ?d ?n eps
      = map (\<lambda>k. map (\<lambda>i. Fin (mu ! i + sqrt \<bar>cs ! i\<bar> * eps k i)) [0..<length mu]) [0..<?n]" .
  show ?thesis
    using l1 l2 mvn lp s1 s2 s3 by simp
qed

theorem diag_negative_covs_witness:
  "[0, 1] \<noteq> ([] :: real list) \<and> length [- 4, 1 :: real] = length [0, 1 :: real] \<and>
   length [0, 1 :: real] = length [0, 1 :: real] \<and> list_all (\<lambda>c. c \<noteq> 0) [- 4, 1 :: real] \<and>
   diag_log_prob \<lparr>means = map Fin [0, 1], covs = map Fin [- 4, 1]\<rparr> (map Fin [0, 1])
     = Inr (Fin (normal_log_density [0, 1] [4, 1] [0, 1])) \<and>
   diag_sample \<lparr>means = map Fin [0, 1], covs = map Fin [- 4, 1]\<rparr> None (\<lambda>k i. 1)
     = Inr [[Fin 2, Fin 2]]"
proof -
  have h1: "[0, 1] \<noteq> ([] :: real list)" by simp
  have h2: "length [- 4, 1 :: real] = length [0, 1 :: real]" by simp
  have h3: "length [0, 1 :: real] = length [0, 1 :: real]" by simp
  have h4: "list_all (\<lambda>c. c \<noteq> 0) [- 4, 1 :: real]" by simp
  have u: "[0..<2] = [0, 1]" by (simp add: upt_rec)
  show ?thesis
    using diag_negative_covs [OF h1 h2 h3 h4, of None "\<lambda>k i. 1"]
    by (simp add: u)
qed

section \<open>Shapes over the life of a model\<close>

lemma finite_not_nan: "list_all is_finite t \<Longrightarrow> \<not> list_ex is_nan t"
proof (induction t)
  case Nil
  then show ?case by simp
next
  case (Cons a t)
  then show ?case by (cases a) simp_all
qed

lemma init_params_random_logits:
  "length (logits (cat_init_params_random u m)) = length (logits m)"
  "list_all is_finite (logits (cat_init_params_random u m))"
proof -
  show "length (logits (cat_init_params_random u m)) = length (logits m)"
    by (simp add: cat_init_params_random_def tlog_def softmax_def rand_like_def)
  show "list_all is_finite (logits (cat_init_params_random u m))"
  proof (cases "logits m = []")
    case True
    then show ?thesis
      by (simp add: cat_init_params_random_def tlog_def softmax_def rand_like_def)
  next
    case False
    let ?xs = "map u [0..<length (logits m)]"
    let ?q = "map (\<lambda>x. exp x / sum_list (map exp ?xs)) ?xs"
    have ne: "?xs \<noteq> []" using False by simp
    have q: "list_all (\<lambda>x. 0 < x) ?q"
      using softmax_pos[OF ne] by blast
    have l: "logits (cat_init_params_random u m) = tlog (map Fin ?q)"
      unfolding cat_init_params_random_def rand_like_Fin softmax_Fin[OF ne] by simp
    show ?thesis
      unfolding l tlog_pos[OF q] by (simp add: list_all_iff)
  qed
qed

lemma fl_log_ratio_not_nan:
  "0 < N \<Longrightarrow> \<not> is_nan (fl_log (fl_div (Fin (real n)) (Fin (real N))))"
  by (cases "n = 0") (simp_all add: not_less)

lemma cat_step_inv:
  assumes "cat_inv K m" and "cat_op_ok K op"
  shows "cat_inv K (cat_step m op)"
proof (cases op)
  case (InitParamsRandom u)
  then show ?thesis
    using assms(1) init_params_random_logits[of u m]
    by (simp add: cat_inv_def finite_not_nan)
next
  case (Fit X)
  show ?thesis
  proof (cases "list_ex (\<lambda>x. x < 0) X")
    case True
    then show ?thesis
      using assms(1) Fit by (simp add: cat_fit_def bincount_def)
  next
    case False
    then have ok: "X \<noteq> []" "list_all (in_support K) X"
      using assms(2) Fit by simp_all
    have sup: "list_all (in_support (length (logits m))) X"
      using ok(2) assms(1) by (simp add: cat_inv_def)
    have N: "0 < length X" using ok(1) by simp
    show ?thesis
      using assms(1) fl_log_ratio_not_nan[OF N]
      by (simp add: Fit cat_fit_support[OF sup] cat_inv_def list_ex_iff)
  qed
next
  case (SetParameters params)
  then show ?thesis
    using assms by (auto simp: cat_set_parameters_def cat_inv_def split: sum.splits)
qed

lemma cat_run_inv:
  "cat_inv K m \<Longrightarrow> list_all (cat_op_ok K) ops \<Longrightarrow> cat_inv K (cat_run m ops)"
  unfolding cat_run_def
  by (induction ops arbitrary: m) (simp_all add: cat_step_inv)

lemma diag_step_inv:
  assumes "diag_inv D m" and "diag_op_ok D op"
  shows "diag_inv D (diag_step m op)"
proof (cases op)
  case (DiagInitParamsRandom z1 z2)
  then show ?thesis
    using assms(1)
    by (simp add: diag_inv_def diag_init_params_random_def Let_def normal_fill_def log_normal_fill_def)
next
  case (DiagFit X)
  then show ?thesis
    using assms(2) by (simp add: diag_inv_def diag_fit_def Let_def mean0_def std0_def pow2_def)
next
  case (DiagSetParameters params)
  then show ?thesis
    using assms by (auto simp: diag_set_parameters_def diag_inv_def Let_def split: sum.splits)
qed

lemma diag_run_inv:
  "diag_inv D m \<Longrightarrow> list_all (diag_op_ok D) ops \<Longrightarrow> diag_inv D (diag_run m ops)"
  unfolding diag_run_def
  by (induction ops arbitrary: m) (simp_all add: diag_step_inv)

text \<open>The writes in place of \<open>init_params_random\<close> keep both shapes whatever the tensor
  objects are, shared or not, and whether the call returns or raises.\<close>

lemma init_inplace_lengths:
  "length (means (diag_view s (state (diag_init_params_random_inplace z1 z2 s st))))
     = length (means (diag_view s st)) \<and>
   length (covs (diag_view s (state (diag_init_params_random_inplace z1 z2 s st))))
     = length (covs (diag_view s st))"
  by (simp add: diag_init_params_random_inplace_def write_inplace_def diag_view_def
      normal_fill_def log_normal_fill_def)

text \<open>
  Claim C4, as stated, fails: \<open>fit\<close> on an index beyond \<open>K - 1\<close> lengthens the logits,
  \<open>fit\<close> on no data fills them with NaN, and \<open>set_parameters\<close> stores whatever tensors
  it is given, here \<open>means\<close> of length 2 beside \<open>covs\<close> of length 1.
\<close>

theorem shape_not_invariant:
  "length (logits (cat_run \<lparr>logits = [Fin 0, Fin 0]\<rparr> [Fit [2]])) = 3 \<and>
   logits (cat_run \<lparr>logits = [Fin 0, Fin 0]\<rparr> [Fit []]) = [NaN, NaN] \<and>
   DiagNormalModel (Tensor [Fin 0]) (Tensor [Fin 1]) = Inr \<lparr>means = [Fin 0], covs = [Fin 1]\<rparr> \<and>
   diag_run \<lparr>means = [Fin 0], covs = [Fin 1]\<rparr> [DiagSetParameters (PyList [[Fin 0, Fin 0], [Fin 1]])]
     = \<lparr>means = [Fin 0, Fin 0], covs = [Fin 1]\<rparr>"
  by (simp add: cat_run_def diag_run_def cat_fit_def bincount_def nbins_def to_float_def
      tlog_def diag_set_parameters_def upt_rec)

text \<open>
  Claim C4, amended. Starting from logits without NaN, after any sequence of calls of
  \<open>init_params_random\<close>, of \<open>fit\<close> on non-empty data with every index in \<open>0..K-1\<close> (or
  raising), and of \<open>set_parameters\<close> with a \<open>params[0]\<close> of length \<open>K\<close> without NaN (or
  raising), the logits have no NaN and the length \<open>K\<close> they started with. For a
  DiagNormalModel as constructed, after any sequence of calls of \<open>init_params_random\<close>,
  of \<open>fit\<close> on data of dimension \<open>D\<close>, and of \<open>set_parameters\<close> with tensors of length
  \<open>D\<close> (or raising on \<open>params[0]\<close>), \<open>means\<close> and \<open>covs\<close> both have the length \<open>D\<close> fixed
  at construction.
\<close>

theorem guarded_calls_keep_shape:
  "(\<not> list_ex is_nan (logits m) \<and> list_all (cat_op_ok (length (logits m))) ops \<longrightarrow>
      length (logits (cat_run m ops)) = length (logits m) \<and>
      \<not> list_ex is_nan (logits (cat_run m ops))) \<and>
   (DiagNormalModel a b = Inr d \<and> list_all (diag_op_ok (length (means d))) dops \<longrightarrow>
      length (means (diag_run d dops)) = length (means d) \<and>
      length (covs (diag_run d dops)) = length (means d))"
proof (intro conjI impI)
  assume a: "\<not> list_ex is_nan (logits m) \<and> list_all (cat_op_ok (length (logits m))) ops"
  then have "cat_inv (length (logits m)) (cat_run m ops)"
    by (intro cat_run_inv) (simp_all add: cat_inv_def)
  then show "length (logits (cat_run m ops)) = length (logits m)"
    and "\<not> list_ex is_nan (logits (cat_run m ops))"
    by (simp_all add: cat_inv_def)
next
  assume a: "DiagNormalModel a b = Inr d \<and> list_all (diag_op_ok (length (means d))) dops"
  then have "length (covs d) = length (means d)"
    by (cases a; cases b) (auto split: if_splits)
  with a have "diag_inv (length (means d)) (diag_run d dops)"
    by (intro diag_run_inv) (simp_all add: diag_inv_def)
  then show "length (means (diag_run d dops)) = length (means d)"
    and "length (covs (diag_run d dops)) = length (means d)"
    by (simp_all add: diag_inv_def)
qed

theorem guarded_calls_keep_shape_witness:
  "\<not> list_ex is_nan (logits \<lparr>logits = [Fin 0, Fin 0]\<rparr>) \<and>
   list_all (cat_op_ok (length (logits \<lparr>logits = [Fin 0, Fin 0]\<rparr>)))
     [InitParamsRandom (\<lambda>i. 0), Fit [0, 1, 1], SetParameters (PyList [[Fin 1, NInf]])] \<and>
   length (logits (cat_run \<lparr>logits = [Fin 0, Fin 0]\<rparr>
     [InitParamsRandom (\<lambda>i. 0), Fit [0, 1, 1], SetParameters (PyList [[Fin 1, NInf]])])) = 2 \<and>
   DiagNormalModel (Tensor [Fin 0]) (Tensor [Fin 1]) = Inr \<lparr>means = [Fin 0], covs = [Fin 1]\<rparr> \<and>
   list_all (diag_op_ok (length (means \<lparr>means = [Fin 0], covs = [Fin 1]\<rparr>)))
     [DiagInitParamsRandom (\<lambda>i. 0) (\<lambda>i. 0), DiagFit \<lparr>ncols = 1, rows = [[Fin 1], [Fin 2]]\<rparr>,
      DiagSetParameters (PyList [[Fin 3], [Fin 4]])] \<and>
   length (covs (diag_run \<lparr>means = [Fin 0], covs = [Fin 1]\<rparr>
     [DiagInitParamsRandom (\<lambda>i. 0) (\<lambda>i. 0), DiagFit \<lparr>ncols = 1, rows = [[Fin 1], [Fin 2]]\<rparr>,
      DiagSetParameters (PyList [[Fin 3], [Fin 4]])])) = 1"
  using guarded_calls_keep_shape [of "\<lparr>logits = [Fin 0, Fin 0]\<rparr>"
      "[InitParamsRandom (\<lambda>i. 0), Fit [0, 1, 1], SetParameters (PyList [[Fin 1, NInf]])]"
      "Tensor [Fin 0]" "Tensor [Fin 1]" "\<lparr>means = [Fin 0], covs = [Fin 1]\<rparr>"
      "[DiagInitParamsRandom (\<lambda>i. 0) (\<lambda>i. 0), DiagFit \<lparr>ncols = 1, rows = [[Fin 1], [Fin 2]]\<rparr>,
        DiagSetParameters (PyList [[Fin 3], [Fin 4]])]"]
  by (simp add: in_support_def)

section \<open>Self-normalisation of log_prob\<close>

lemma float32_normal: "normal32 x \<Longrightarrow> float32 (Fin x) = Fin x"
proof -
  assume a: "normal32 x"
  have "(1::real) / 2 ^ 150 < 1 / 2 ^ 126" by simp
  with a have "\<not> \<bar>x\<bar> \<le> 1 / 2 ^ 150" and "\<not> 2 ^ 128 - 2 ^ 103 \<le> \<bar>x\<bar>"
    unfolding normal32_def by linarith+
  then show ?thesis by simp
qed

lemma float32_scale_normal:
  assumes "normal32 c" and "list_all (\<lambda>x. normal32 (c * x)) p"
  shows "float32_scale c (map Fin p) = map Fin (map ((*) c) p)"
proof -
  have "float32 (fl_mul (float32 (Fin c)) (Fin x)) = Fin (c * x)" if "x \<in> set p" for x
  proof -
    have "normal32 (c * x)" using that assms(2) by (simp add: list_all_iff)
    then show ?thesis
      by (simp only: float32_normal[OF assms(1)] fl_mul.simps float32_normal)
  qed
  then show ?thesis
    by (simp add: float32_scale_def del: float32.simps)
qed

lemma sum_list_scale: "sum_list (map ((*) c) p) = c * sum_list (p::real list)"
  by (induction p) (simp_all add: algebra_simps)

lemma float32_overflow: "float32_scale (2 ^ 127) [Fin 2, Fin 3] = [PInf, PInf]"
  by (simp add: float32_scale_def sgn_inf_def)

text \<open>
  Claim C10, as stated, fails: it holds for every positive scalar in real arithmetic,
  not in float32. With \<open>c = 2^127\<close> and \<open>p = [2, 3]\<close> the products \<open>c * p\<close> overflow
  to \<open>[inf, inf]\<close>, the normalised logits of that model are NaN and its \<open>log_prob\<close>
  raises ValueError, while the model built from \<open>p\<close> returns \<open>ln (2 / 5)\<close>.
\<close>

theorem log_prob_scale_overflow:
  "CategoricalModel (Some (float32_scale (2 ^ 127) [Fin 2, Fin 3])) None
     = Inr \<lparr>logits = [PInf, PInf]\<rparr> \<and>
   cat_log_prob \<lparr>logits = [PInf, PInf]\<rparr> [0] = Inl (ValueError ''logits'') \<and>
   CategoricalModel (Some [Fin 2, Fin 3]) None = Inr \<lparr>logits = tlog [Fin 2, Fin 3]\<rparr> \<and>
   cat_log_prob \<lparr>logits = tlog [Fin 2, Fin 3]\<rparr> [0] = Inr [Fin (ln (2 / 5))]"
proof -
  have q: "list_all (\<lambda>x. 0 < x) [2, 3 :: real]" "[2, 3 :: real] \<noteq> []" by simp_all
  have "cat_log_prob \<lparr>logits = tlog (map Fin [2, 3])\<rparr> [0] = Inr [Fin (ln (2 / 5))]"
    unfolding cat_log_prob_pos[OF q] by (simp add: in_support_def)
  then have a: "cat_log_prob \<lparr>logits = tlog [Fin 2, Fin 3]\<rparr> [0] = Inr [Fin (ln (2 / 5))]"
    by simp
  have b: "cat_log_prob \<lparr>logits = [PInf, PInf]\<rparr> [0] = Inl (ValueError ''logits'')"
    by (simp add: cat_log_prob_def Categorical_def logsumexp_def fl_sub_def)
  have c: "CategoricalModel (Some (float32_scale (2 ^ 127) [Fin 2, Fin 3])) None
     = Inr \<lparr>logits = [PInf, PInf]\<rparr>"
    unfolding float32_overflow by (simp add: tlog_def)
  have d: "CategoricalModel (Some [Fin 2, Fin 3]) None = Inr \<lparr>logits = tlog [Fin 2, Fin 3]\<rparr>"
    by simp
  show ?thesis
    using a b c d by blast
qed

text \<open>
  Claim C10, amended. For every positive scalar \<open>c\<close> in the normal range of float32,
  every vector \<open>p\<close> of positive entries whose products \<open>c * p\<close> all stay in that range,
  and every category index \<open>v\<close> of the support, the models built from \<open>probs = c * p\<close>
  and from \<open>probs = p\<close> return the same \<open>log_prob\<close> (on \<open>v\<close>, and on every batch of
  indices), namely \<open>ln (p v / sum p)\<close>, and the exponentials of \<open>log_prob\<close> over the
  support \<open>0..K-1\<close> sum to 1; both up to the rounding of float32, which is left out here.
\<close>

theorem log_prob_scale_invariant:
  assumes "normal32 c" and "0 < c" and "list_all (\<lambda>x. 0 < x \<and> normal32 (c * x)) p"
    and "in_support (length p) v"
  shows "\<exists>m mc ls. CategoricalModel (Some (map Fin p)) None = Inr m \<and>
          CategoricalModel (Some (float32_scale c (map Fin p))) None = Inr mc \<and>
          (\<forall>vs. cat_log_prob mc vs = cat_log_prob m vs) \<and>
          cat_log_prob m [v] = Inr [Fin (ln (p ! nat v / sum_list p))] \<and>
          cat_log_prob m (map int [0..<length p]) = Inr ls \<and>
          tsum (map fl_exp ls) = Fin 1"
proof -
  have ppos: "list_all (\<lambda>x. 0 < x) p" and pn: "list_all (\<lambda>x. normal32 (c * x)) p"
    using assms(3) by (simp_all add: list_all_iff)
  have scale: "float32_scale c (map Fin p) = map Fin (map ((*) c) p)"
    by (rule float32_scale_normal[OF assms(1) pn])
  from assms(4) have ne: "p \<noteq> []" by (auto simp: in_support_def)
  have S: "0 < sum_list p" using ppos ne by (simp add: sum_list_pos)
  have cpos: "list_all (\<lambda>x. 0 < x) (map ((*) c) p)"
    using assms(2) ppos by (simp add: list_all_iff)
  have cne: "map ((*) c) p \<noteq> []" using ne by simp
  let ?m = "\<lparr>logits = tlog (map Fin p)\<rparr>"
  let ?mc = "\<lparr>logits = tlog (float32_scale c (map Fin p))\<rparr>"
  let ?ls = "map (\<lambda>v. Fin (ln (p ! nat v / sum_list p))) (map int [0..<length p])"
  have eq: "cat_log_prob ?mc vs = cat_log_prob ?m vs" for vs
  proof -
    have "map ((*) c) p ! nat x / (c * sum_list p) = p ! nat x / sum_list p"
      if "in_support (length p) x" for x
    proof -
      have "nat x < length p" using that by (rule support_nat)
      then show ?thesis using assms(2) by simp
    qed
    then have "map (\<lambda>v. Fin (ln (map ((*) c) p ! nat v / (c * sum_list p)))) vs
        = map (\<lambda>v. Fin (ln (p ! nat v / sum_list p))) vs"
      if "list_all (in_support (length p)) vs"
      using that by (simp add: list_all_iff)
    then show ?thesis
      unfolding scale cat_log_prob_pos[OF cpos cne] cat_log_prob_pos[OF ppos ne]
      by (simp add: sum_list_scale)
  qed
  have one: "cat_log_prob ?m [v] = Inr [Fin (ln (p ! nat v / sum_list p))]"
    using assms(4) by (simp add: cat_log_prob_pos[OF ppos ne])
  have all: "cat_log_prob ?m (map int [0..<length p]) = Inr ?ls"
    by (simp add: cat_log_prob_pos[OF ppos ne] list_all_iff in_support_def)
  have pv: "0 < p ! i / sum_list p" if "i < length p" for i
    using that ppos S by (simp add: list_all_length)
  have "map fl_exp ?ls = map (\<lambda>i. Fin (p ! i / sum_list p)) [0..<length p]"
    using pv by simp
  also have "\<dots> = map (\<lambda>x. Fin (x / sum_list p)) p"
    by (rule nth_equalityI) simp_all
  finally have "tsum (map fl_exp ?ls) = Fin (sum_list (map (\<lambda>x. x / sum_list p) p))"
    by (simp add: tsum_map_Fin)
  also have "sum_list (map (\<lambda>x. x / s) p) = sum_list p / s" for s
    by (induction p) (simp_all add: add_divide_distrib)
  finally have sum1: "tsum (map fl_exp ?ls) = Fin 1" using S by simp
  show ?thesis
    using eq one all sum1 by simp
qed

theorem log_prob_scale_invariant_witness:
  "normal32 2 \<and> (0::real) < 2 \<and> list_all (\<lambda>x. 0 < x \<and> normal32 (2 * x)) [1, 1 :: real] \<and>
   in_support (length [1, 1 :: real]) 1 \<and>
   (\<exists>m mc ls. CategoricalModel (Some (map Fin [1, 1])) None = Inr m \<and>
          CategoricalModel (Some (float32_scale 2 (map Fin [1, 1]))) None = Inr mc \<and>
          (\<forall>vs. cat_log_prob mc vs = cat_log_prob m vs) \<and>
          cat_log_prob m [1] = Inr [Fin (ln (1 / 2))] \<and>
          cat_log_prob m (map int [0..<length [1, 1 :: real]]) = Inr ls \<and>
          tsum (map fl_exp ls) = Fin 1)"
proof -
  have h1: "normal32 2" by (simp add: normal32_def)
  have h2: "(0::real) < 2" by simp
  have h3: "list_all (\<lambda>x. 0 < x \<and> normal32 (2 * x)) [1, 1 :: real]" by (simp add: normal32_def)
  have h4: "in_support (length [1, 1 :: real]) 1" by (simp add: in_support_def)
  show ?thesis
    using h1 h2 h3 h4 log_prob_scale_invariant [OF h1 h2 h3 h4] by simp
qed

end
